theory Spec2Isabelle
  imports Complex_Main
begin

section \<open>Numbers and Python values\<close>

text \<open>
  The projection engine of \<^verbatim>\<open>app.py\<close> computes with Python floats. Finite floats are
  idealised here as real numbers with exact arithmetic: rounding and overflow are not
  modelled. The two solvers of \<^verbatim>\<open>numpy_financial\<close> can, however, hand back a value that is
  not a finite number (a division by zero inside numpy gives an infinity or a NaN, with a
  warning and no exception), and the code tests for NaN explicitly, so the values that
  cross the boundary of the solvers keep these cases apart.
\<close>

datatype pyfloat = Fin real | PInf | NInf | NaN

text \<open>What a called function hands back: Python's \<^verbatim>\<open>None\<close> or a float.\<close>

datatype pyval = PyNone | PyFloat pyfloat

text \<open>
  An exception that derives from \<^verbatim>\<open>Exception\<close>. A call either raises (\<open>Inl\<close>) or
  returns (\<open>Inr\<close>).
\<close>

datatype py_exn = TypeError | SolverError

type_synonym 'a py = "py_exn + 'a"

text \<open>\<^verbatim>\<open>np.isnan(x)\<close> on a float.\<close>

fun isnan :: "pyfloat \<Rightarrow> bool" where
  "isnan NaN = True"
| "isnan _ = False"

text \<open>
  \<^verbatim>\<open>abs(x)\<close>: on a float the absolute value, which keeps a NaN and turns either infinity
  into the positive one; on \<^verbatim>\<open>None\<close> a \<^verbatim>\<open>TypeError\<close>.
\<close>

fun float_abs :: "pyfloat \<Rightarrow> pyfloat" where
  "float_abs (Fin r) = Fin \<bar>r\<bar>"
| "float_abs PInf = PInf"
| "float_abs NInf = PInf"
| "float_abs NaN = NaN"

fun py_abs :: "pyval \<Rightarrow> pyval py" where
  "py_abs PyNone = Inl TypeError"
| "py_abs (PyFloat x) = Inr (PyFloat (float_abs x))"

text \<open>
  The expression \<^verbatim>\<open>(1 + monthly_rate) ** 12 - 1\<close> on a float that is not a NaN: the
  even power sends both infinities to the positive one.
\<close>

fun annualise :: "pyfloat \<Rightarrow> pyfloat" where
  "annualise (Fin r) = Fin ((1 + r) ^ 12 - 1)"
| "annualise PInf = PInf"
| "annualise NInf = PInf"
| "annualise NaN = NaN"

text \<open>
  Truth value of \<^verbatim>\<open>if x:\<close>: \<^verbatim>\<open>None\<close> and the float zero are false, every other float
  (the infinities and NaN too) is true.
\<close>

fun truthy :: "pyval \<Rightarrow> bool" where
  "truthy PyNone = False"
| "truthy (PyFloat (Fin r)) = (r \<noteq> 0)"
| "truthy (PyFloat _) = True"

text \<open>\<^verbatim>\<open>x - a\<close> for a float \<open>x\<close> and a finite \<open>a\<close>.\<close>

fun float_minus :: "pyfloat \<Rightarrow> real \<Rightarrow> pyfloat" where
  "float_minus (Fin r) a = Fin (r - a)"
| "float_minus PInf a = PInf"
| "float_minus NInf a = NInf"
| "float_minus NaN a = NaN"

section \<open>The projection engine\<close>

subsection \<open>Future value\<close>

text \<open>
  \<^verbatim>\<open>calcular_valor_futuro(present_value, monthly_contribution, years, annual_rate)\<close>.
  The horizon is a whole number of years (the slider of the page yields an integer from
  1 to 50). The branch of the contributions tests \<^verbatim>\<open>monthly_rate > 0\<close>, so the division
  is never by zero.
\<close>

definition calcular_valor_futuro :: "real \<Rightarrow> real \<Rightarrow> nat \<Rightarrow> real \<Rightarrow> real" where
  "calcular_valor_futuro present_value monthly_contribution years annual_rate =
     (let months = years * 12;
          monthly_rate = annual_rate / 12;
          fv_principal = present_value * (1 + monthly_rate) ^ months;
          fv_contributions =
            (if monthly_rate > 0
             then monthly_contribution * (((1 + monthly_rate) ^ months - 1) / monthly_rate)
             else monthly_contribution * real months)
      in fv_principal + fv_contributions)"

subsection \<open>Required rate and required payment\<close>

text \<open>
  Both functions wrap one call of \<^verbatim>\<open>numpy_financial\<close> in \<^verbatim>\<open>try\<close>/\<^verbatim>\<open>except\<close>. The library
  is not part of the repository, so the solver is a parameter of the model: a function
  that raises or returns a value. The handler of the source catches every exception of
  the body and returns \<^verbatim>\<open>None\<close>.
\<close>

type_synonym rate_solver = "nat \<Rightarrow> real \<Rightarrow> real \<Rightarrow> real \<Rightarrow> pyval py"

type_synonym pmt_solver = "real \<Rightarrow> nat \<Rightarrow> real \<Rightarrow> real \<Rightarrow> pyval py"

text \<open>
  \<^verbatim>\<open>calcular_cagr_necesario(present_value, target_value, years, monthly_contribution)\<close>;
  the solver stands for \<^verbatim>\<open>npf.rate(nper, pmt, pv, fv)\<close>.
\<close>

definition calcular_cagr_necesario ::
  "rate_solver \<Rightarrow> real \<Rightarrow> real \<Rightarrow> nat \<Rightarrow> real \<Rightarrow> pyval py" where
  "calcular_cagr_necesario npf_rate present_value target_value years monthly_contribution =
     (let months = years * 12 in
      case npf_rate months (- monthly_contribution) (- present_value) target_value of
        Inl e \<Rightarrow> Inr PyNone
      | Inr PyNone \<Rightarrow> Inr PyNone
      | Inr (PyFloat monthly_rate) \<Rightarrow>
          if isnan monthly_rate then Inr PyNone
          else Inr (PyFloat (annualise monthly_rate)))"

text \<open>
  \<^verbatim>\<open>calcular_aportacion_necesaria(present_value, target_value, years, annual_rate_fixed)\<close>;
  the solver stands for \<^verbatim>\<open>npf.pmt(rate, nper, pv, fv)\<close>. The bare \<^verbatim>\<open>except\<close> also catches
  the \<^verbatim>\<open>TypeError\<close> of \<^verbatim>\<open>abs(None)\<close>.
\<close>

definition calcular_aportacion_necesaria ::
  "pmt_solver \<Rightarrow> real \<Rightarrow> real \<Rightarrow> nat \<Rightarrow> real \<Rightarrow> pyval py" where
  "calcular_aportacion_necesaria npf_pmt present_value target_value years annual_rate_fixed =
     (let months = years * 12;
          monthly_rate = annual_rate_fixed / 12 in
      case npf_pmt monthly_rate months (- present_value) target_value of
        Inl e \<Rightarrow> Inr PyNone
      | Inr monthly_pmt \<Rightarrow>
          (case py_abs monthly_pmt of
             Inl e \<Rightarrow> Inr PyNone
           | Inr v \<Rightarrow> Inr v))"

subsection \<open>The solvers of the library\<close>

text \<open>
  Modelled from the spec: \<^verbatim>\<open>numpy_financial.pmt\<close> is an external routine, not under
  \<^verbatim>\<open>src/\<close>. The spec describes it as solving for the level payment of the annuity
  equation \<open>fv + pv * (1 + rate) ^ nper + pmt * ((1 + rate) ^ nper - 1) / rate = 0\<close>
  (payments at the end of each period), which the library does in closed form:
  \<^verbatim>\<open>temp = (1 + rate)**nper\<close>, \<^verbatim>\<open>fact = nper\<close> when the rate is zero and
  \<^verbatim>\<open>(temp - 1) / rate\<close> otherwise, result \<^verbatim>\<open>-(fv + pv*temp) / fact\<close>. A zero \<open>fact\<close>
  makes numpy return an infinity or a NaN; the zero has the sign of the rate.
\<close>

definition npf_pmt :: pmt_solver where
  "npf_pmt rate nper pv fv =
     (let temp = (1 + rate) ^ nper;
          fact = (if rate = 0 then real nper else (temp - 1) / rate);
          num = - (fv + pv * temp)
      in if fact \<noteq> 0 then Inr (PyFloat (Fin (num / fact)))
         else if num = 0 then Inr (PyFloat NaN)
         else if (0 < num) = (0 \<le> rate) then Inr (PyFloat PInf)
         else Inr (PyFloat NInf))"

text \<open>
  Modelled from the spec: \<^verbatim>\<open>numpy_financial.rate\<close> is an external routine, not under
  \<^verbatim>\<open>src/\<close>. The spec describes it as a numeric solve of the same annuity equation for
  the rate, with a convergence tolerance and an iteration cap; the library runs Newton's
  iteration from the guess \<open>0.1\<close>, stops when two successive iterates differ by less than
  \<open>1e-6\<close>, and returns NaN when 100 iterations have not brought that about.
  \<open>g_div_gp\<close> is the Newton step \<open>g / g'\<close> of the library for payments at the end of the
  period; a division by zero in it yields a value that is not finite, after which the
  iteration can only end in NaN.
\<close>

definition g_div_gp :: "real \<Rightarrow> nat \<Rightarrow> real \<Rightarrow> real \<Rightarrow> real \<Rightarrow> real option" where
  "g_div_gp r n p x y =
     (let t1 = (r + 1) ^ n;
          t2 = (r + 1) ^ (n - 1);
          g = y + t1 * x + p * (t1 - 1) / r;
          gp = real n * t2 * x - p * (t1 - 1) / r\<^sup>2 + real n * p * t2 / r
      in if r = 0 \<or> gp = 0 then None else Some (g / gp))"

fun newton :: "nat \<Rightarrow> real \<Rightarrow> nat \<Rightarrow> real \<Rightarrow> real \<Rightarrow> real \<Rightarrow> pyfloat" where
  "newton 0 rn nper pmt pv fv = NaN"
| "newton (Suc k) rn nper pmt pv fv =
     (case g_div_gp rn nper pmt pv fv of
        None \<Rightarrow> NaN
      | Some d \<Rightarrow>
          (let rnp1 = rn - d in
           if \<bar>rnp1 - rn\<bar> < 1 / 10 ^ 6 then Fin rnp1
           else newton k rnp1 nper pmt pv fv))"

definition npf_rate :: rate_solver where
  "npf_rate nper pmt pv fv = Inr (PyFloat (newton 100 (1 / 10) nper pmt pv fv))"

section \<open>The page: savings gap and yearly series\<close>

text \<open>
  \<^verbatim>\<open>gap_ahorro = ahorro_necesario_mensual - aportacion_actual if ahorro_necesario_mensual else 0\<close>
\<close>

definition gap_ahorro :: "pyval \<Rightarrow> real \<Rightarrow> pyfloat" where
  "gap_ahorro ahorro_necesario_mensual aportacion_actual =
     (if truthy ahorro_necesario_mensual
      then (case ahorro_necesario_mensual of
              PyFloat x \<Rightarrow> float_minus x aportacion_actual
            | PyNone \<Rightarrow> Fin 0)
      else Fin 0)"

text \<open>
  The loop over \<^verbatim>\<open>years_axis = list(range(horizonte_temporal + 1))\<close> appends one value
  per year to each series. \<^verbatim>\<open>serie_mercado\<close> is the projected wealth at the reference
  rate and \<^verbatim>\<open>serie_cash\<close> the cash put aside; the third series of the source,
  \<^verbatim>\<open>serie_objetivo\<close>, is filled independently of these two and is left out.
\<close>

definition years_axis :: "nat \<Rightarrow> nat list" where
  "years_axis horizonte_temporal = [0..<horizonte_temporal + 1]"

record series =
  serie_mercado :: "real list"
  serie_cash :: "real list"

definition loop_body :: "real \<Rightarrow> real \<Rightarrow> real \<Rightarrow> nat \<Rightarrow> series \<Rightarrow> series" where
  "loop_body patrimonio_inicial aportacion_actual rentabilidad_fija_decimal y s =
     (let val_mercado =
            calcular_valor_futuro patrimonio_inicial aportacion_actual y rentabilidad_fija_decimal;
          val_cash = patrimonio_inicial + aportacion_actual * 12 * real y
      in s\<lparr>serie_mercado := serie_mercado s @ [val_mercado],
           serie_cash := serie_cash s @ [val_cash]\<rparr>)"

definition generar_series :: "real \<Rightarrow> real \<Rightarrow> real \<Rightarrow> nat \<Rightarrow> series" where
  "generar_series patrimonio_inicial aportacion_actual rentabilidad_fija_decimal horizonte_temporal =
     fold (loop_body patrimonio_inicial aportacion_actual rentabilidad_fija_decimal)
       (years_axis horizonte_temporal)
       \<lparr>serie_mercado = [], serie_cash = []\<rparr>"

section \<open>Properties of the future value\<close>

text \<open>
  C4. At the annual rate zero the future value is the present value plus twelve monthly
  contributions per year: the principal is multiplied by \<open>1\<close>, the contributions take the
  linear branch, and nothing is divided by the rate.
\<close>

theorem calcular_valor_futuro_zero_rate:
  "calcular_valor_futuro pv pmt years 0 = pv + pmt * 12 * real years"
  by (simp add: calcular_valor_futuro_def)

text \<open>
  C5. With no horizon and no contribution the future value is the present value,
  whatever the rate.
\<close>

theorem calcular_valor_futuro_identity:
  "calcular_valor_futuro pv 0 0 r = pv"
  by (simp add: calcular_valor_futuro_def Let_def)

text \<open>
  C10. A strictly negative annual rate fails the test \<^verbatim>\<open>monthly_rate > 0\<close>: the
  contributions are added up linearly, \<open>monthly_contribution * months\<close>, while the
  principal is still compounded at the negative monthly rate.
\<close>

theorem calcular_valor_futuro_negative_rate:
  "annual_rate < 0 \<Longrightarrow>
   calcular_valor_futuro pv pmt years annual_rate =
     pv * (1 + annual_rate / 12) ^ (years * 12) + pmt * real (years * 12)"
  by (simp add: calcular_valor_futuro_def Let_def)

theorem calcular_valor_futuro_negative_rate_witness:
  "(- 12 / 100 :: real) < 0 \<and>
   calcular_valor_futuro 1000 100 1 (- 12 / 100) =
     1000 * (1 + (- 12 / 100) / 12) ^ (1 * 12) + 100 * real (1 * 12 :: nat)"
  using calcular_valor_futuro_negative_rate [of "- 12 / 100" 1000 100 1] by simp

section \<open>Infeasibility is a value\<close>

lemma isnan_iff: "isnan x = (x = NaN)"
  by (cases x) simp_all

lemma annualise_NaN_iff: "(annualise x = NaN) = (x = NaN)"
  by (cases x) simp_all

text \<open>
  C3. Whatever the solver does (raise, return \<^verbatim>\<open>None\<close>, return NaN or a number), the
  required rate returns normally: its result is \<^verbatim>\<open>None\<close> exactly when the solver raised
  or returned \<^verbatim>\<open>None\<close> or NaN, and a float that is not NaN otherwise, which is a value
  different from \<^verbatim>\<open>None\<close>.
\<close>

theorem calcular_cagr_necesario_never_raises:
  "(\<exists>v. calcular_cagr_necesario solver pv target years pmt = Inr v) \<and>
   (calcular_cagr_necesario solver pv target years pmt = Inr PyNone) =
     ((\<exists>e. solver (years * 12) (- pmt) (- pv) target = Inl e) \<or>
      solver (years * 12) (- pmt) (- pv) target = Inr PyNone \<or>
      solver (years * 12) (- pmt) (- pv) target = Inr (PyFloat NaN)) \<and>
   calcular_cagr_necesario solver pv target years pmt \<noteq> Inr (PyFloat NaN) \<and>
   PyNone \<noteq> PyFloat x"
  by (cases "solver (years * 12) (- pmt) (- pv) target")
    (auto simp: calcular_cagr_necesario_def Let_def isnan_iff annualise_NaN_iff
       split: pyval.split)

section \<open>The yearly series\<close>

lemma fold_loop_body:
  "fold (loop_body pv pmt r) ys s =
     s\<lparr>serie_mercado := serie_mercado s @ map (\<lambda>y. calcular_valor_futuro pv pmt y r) ys,
       serie_cash := serie_cash s @ map (\<lambda>y. pv + pmt * 12 * real y) ys\<rparr>"
  by (induction ys arbitrary: s) (simp_all add: loop_body_def Let_def)

lemma generar_series_eq:
  "generar_series pv pmt r h =
     \<lparr>serie_mercado = map (\<lambda>y. calcular_valor_futuro pv pmt y r) (years_axis h),
      serie_cash = map (\<lambda>y. pv + pmt * 12 * real y) (years_axis h)\<rparr>"
  by (simp add: generar_series_def fold_loop_body)

text \<open>
  C6. For every horizon the axis and both series have \<open>horizonte_temporal + 1\<close> entries,
  entry \<open>i\<close> belongs to year \<open>i\<close>, and its values are the future value and the cash of
  that year, computed from the present value, the contribution, the rate and the year
  alone.
\<close>

theorem generar_series_length_index:
  "length (years_axis h) = h + 1 \<and>
   length (serie_mercado (generar_series pv pmt r h)) = h + 1 \<and>
   length (serie_cash (generar_series pv pmt r h)) = h + 1 \<and>
   (\<forall>i\<le>h. years_axis h ! i = i \<and>
      serie_mercado (generar_series pv pmt r h) ! i = calcular_valor_futuro pv pmt i r \<and>
      serie_cash (generar_series pv pmt r h) ! i = pv + pmt * 12 * real i)"
  by (simp add: generar_series_eq years_axis_def nth_append less_Suc_eq_le)

theorem generar_series_length_index_witness:
  "length (years_axis 2) = 2 + 1 \<and>
   length (serie_mercado (generar_series 1000 100 0 2)) = 2 + 1 \<and>
   length (serie_cash (generar_series 1000 100 0 2)) = 2 + 1 \<and>
   (1::nat) \<le> 2 \<and>
   years_axis 2 ! 1 = 1 \<and>
   serie_mercado (generar_series 1000 100 0 2) ! 1 = 2200 \<and>
   serie_cash (generar_series 1000 100 0 2) ! 1 = 2200"
proof -
  note h = generar_series_length_index [of 2 1000 100 0]
  have i: "(1::nat) \<le> 2" by simp
  from h have
    "years_axis 2 ! 1 = 1 \<and>
     serie_mercado (generar_series 1000 100 0 2) ! 1 = calcular_valor_futuro 1000 100 1 0 \<and>
     serie_cash (generar_series 1000 100 0 2) ! 1 = 1000 + 100 * 12 * real (1::nat)"
    using i by blast
  with h show ?thesis by (simp add: calcular_valor_futuro_def)
qed

subsection \<open>Monotonicity\<close>

text \<open>
  For a rate that is not negative both branches of the contributions are the same sum:
  the annuity factor \<open>((1 + r) ^ n - 1) / r\<close> is the geometric sum of the powers of
  \<open>1 + r\<close> below \<open>n\<close>, and at rate zero that sum is \<open>n\<close>.
\<close>

lemma annuity_sum: "r \<noteq> 0 \<Longrightarrow> ((1 + r) ^ n - 1) / r = (\<Sum>k<n. (1 + r :: real) ^ k)"
  using geometric_sum [of "1 + r" n] by simp

lemma calcular_valor_futuro_sum:
  "0 \<le> rate \<Longrightarrow>
   calcular_valor_futuro pv pmt years rate =
     pv * (1 + rate / 12) ^ (years * 12) + pmt * (\<Sum>k<years * 12. (1 + rate / 12) ^ k)"
proof (cases "rate = 0")
  case True
  then show ?thesis by (simp add: calcular_valor_futuro_def)
next
  case False
  assume "0 \<le> rate"
  with False have m: "0 < rate / 12" by simp
  then have "rate / 12 \<noteq> 0" by simp
  from annuity_sum [OF this, of "years * 12"] m show ?thesis
    unfolding calcular_valor_futuro_def Let_def by (simp only: if_True)
qed

lemma calcular_valor_futuro_mono_years:
  assumes "0 \<le> pv" "0 \<le> pmt" "0 \<le> rate" "i \<le> j"
  shows "calcular_valor_futuro pv pmt i rate \<le> calcular_valor_futuro pv pmt j rate"
proof -
  let ?b = "1 + rate / 12"
  have b: "1 \<le> ?b" using assms by simp
  have n: "i * 12 \<le> j * 12" using assms by simp
  have p: "pv * ?b ^ (i * 12) \<le> pv * ?b ^ (j * 12)"
    using assms b n by (intro mult_left_mono power_increasing)
  have "(\<Sum>k<i * 12. ?b ^ k) \<le> (\<Sum>k<j * 12. ?b ^ k)"
    using b n by (intro sum_mono2) auto
  then have c: "pmt * (\<Sum>k<i * 12. ?b ^ k) \<le> pmt * (\<Sum>k<j * 12. ?b ^ k)"
    using assms by (intro mult_left_mono)
  from p c show ?thesis using assms by (simp add: calcular_valor_futuro_sum)
qed

text \<open>
  C7, as stated: with a negative present value the projected wealth falls although rate
  and contribution are not negative. A debt of 100 at 12 per cent a year and no
  contribution stands at \<open>- 100\<close> in year 0 and below that in year 1.
\<close>

theorem serie_mercado_sorted_counterexample:
  "\<not> sorted (serie_mercado (generar_series (- 100) 0 (12 / 100) 1))"
  by (simp add: generar_series_eq years_axis_def calcular_valor_futuro_def Let_def
        power_divide upt_rec)

text \<open>
  C7, amended: when the present value, the monthly contribution and the annual rate are
  all non-negative, the projected wealth never decreases from one year to a later one.
\<close>

theorem serie_mercado_sorted:
  assumes "0 \<le> pv" "0 \<le> pmt" "0 \<le> rate"
  shows "sorted (serie_mercado (generar_series pv pmt rate h))"
  using assms
  by (auto simp: generar_series_eq years_axis_def sorted_iff_nth_mono simp del: upt_Suc
        intro!: calcular_valor_futuro_mono_years)

theorem serie_mercado_sorted_witness:
  "(0::real) \<le> 1000 \<and> (0::real) \<le> 100 \<and> (0::real) \<le> 0 \<and>
   sorted (serie_mercado (generar_series 1000 100 0 2)) \<and>
   serie_mercado (generar_series 1000 100 0 2) = [1000, 2200, 3400]"
  using serie_mercado_sorted [of 1000 100 0 2]
  by (simp add: generar_series_eq years_axis_def calcular_valor_futuro_def upt_rec)

section \<open>The required payment\<close>

text \<open>
  C9. When the solver returns a finite payment \<open>p\<close>, the required payment is its
  absolute value, a number that is not negative.
\<close>

theorem calcular_aportacion_necesaria_abs:
  assumes "solver (rate / 12) (years * 12) (- pv) target = Inr (PyFloat (Fin p))"
  shows "calcular_aportacion_necesaria solver pv target years rate = Inr (PyFloat (Fin \<bar>p\<bar>)) \<and>
         0 \<le> \<bar>p\<bar>"
  using assms by (simp add: calcular_aportacion_necesaria_def Let_def)

theorem calcular_aportacion_necesaria_abs_witness:
  "npf_pmt (0 / 12) (20 * 12) (- 100000) 900000 = Inr (PyFloat (Fin (- 10000 / 3))) \<and>
   calcular_aportacion_necesaria npf_pmt 100000 900000 20 0 = Inr (PyFloat (Fin (10000 / 3)))"
proof -
  have h: "npf_pmt (0 / 12) (20 * 12) (- 100000) 900000 = Inr (PyFloat (Fin (- 10000 / 3)))"
    by (simp add: npf_pmt_def Let_def)
  from calcular_aportacion_necesaria_abs [of npf_pmt 0 20 100000 900000 "- 10000 / 3"] h
  show ?thesis by simp
qed

text \<open>
  C2, as stated: the payment solve succeeds whenever the solver returns a number, also
  when the principal alone outgrows the target. Then the solved payment is a withdrawal,
  its absolute value is returned, and the future value with it is not the target: from
  200000 towards 75000 in one year at rate zero the function returns 31250/3 a month,
  and contributing that leads to 325000. At a negative rate the solver uses the annuity
  factor and the future value the linear branch, so the two disagree as well: from 0
  towards 1200 in one year at minus 12 per cent the payment leads beyond 1250.
\<close>

theorem payment_round_trip_counterexample:
  "calcular_aportacion_necesaria npf_pmt 200000 75000 1 0 = Inr (PyFloat (Fin (31250 / 3))) \<and>
   calcular_valor_futuro 200000 (31250 / 3) 1 0 = 325000 \<and>
   \<bar>calcular_valor_futuro 200000 (31250 / 3) 1 0 - 75000\<bar> = 250000 \<and>
   calcular_aportacion_necesaria npf_pmt 0 1200 1 (- 12 / 100)
     = Inr (PyFloat (Fin (12 / (1 - (99 / 100) ^ 12)))) \<and>
   1250 < calcular_valor_futuro 0 (12 / (1 - (99 / 100) ^ 12)) 1 (- 12 / 100)"
  by (simp add: calcular_aportacion_necesaria_def npf_pmt_def Let_def calcular_valor_futuro_def
        power_divide)

text \<open>
  C2, amended: for a horizon of at least one year, a fixed annual rate that is not
  negative, and a target that the compounded present value does not exceed, the required
  payment is a number, and the future value with that payment as monthly contribution is
  the target (exactly, in exact arithmetic).
\<close>

theorem payment_round_trip:
  assumes "0 < years" "0 \<le> rate" "pv * (1 + rate / 12) ^ (years * 12) \<le> target"
  shows "\<exists>p. calcular_aportacion_necesaria npf_pmt pv target years rate = Inr (PyFloat (Fin p)) \<and>
     calcular_valor_futuro pv p years rate = target"
proof (cases "rate = 0")
  case True
  with assms show ?thesis
    by (simp add: calcular_aportacion_necesaria_def npf_pmt_def Let_def calcular_valor_futuro_def
          abs_if field_simps)
next
  case False
  define m where "m = rate / 12"
  define t where "t = (1 + m) ^ (years * 12)"
  define f where "f = (t - 1) / m"
  have m: "0 < m" using False assms by (simp add: m_def)
  have "1 < t" unfolding t_def using m assms by (intro one_less_power) auto
  then have f: "0 < f" using m by (simp add: f_def)
  have num: "0 \<le> target - pv * t" using assms by (simp add: t_def m_def)
  have e: "- (target + - pv * t) / f = - ((target - pv * t) / f)"
    using f by (simp add: field_simps)
  have "0 \<le> (target - pv * t) / f" using f num by simp
  then have abs: "\<bar>- (target + - pv * t) / f\<bar> = (target - pv * t) / f"
    unfolding e by (simp only: abs_minus_cancel abs_of_nonneg)
  have s: "npf_pmt m (years * 12) (- pv) target = Inr (PyFloat (Fin (- (target + - pv * t) / f)))"
    using f m unfolding npf_pmt_def Let_def t_def [symmetric] f_def [symmetric] by simp
  have r: "calcular_aportacion_necesaria npf_pmt pv target years rate
     = Inr (PyFloat (Fin ((target - pv * t) / f)))"
    unfolding calcular_aportacion_necesaria_def Let_def m_def [symmetric] s
    by (simp only: py_abs.simps float_abs.simps sum.case abs)
  have "calcular_valor_futuro pv ((target - pv * t) / f) years rate
      = pv * t + (target - pv * t) / f * f"
    unfolding calcular_valor_futuro_def Let_def m_def [symmetric] t_def [symmetric]
      f_def [symmetric]
    using m by simp
  also have "\<dots> = target" using f by simp
  finally show ?thesis using r by blast
qed

theorem payment_round_trip_witness:
  "(0::nat) < 1 \<and> (0::real) \<le> 12 / 100 \<and>
   (100000::real) * (1 + (12 / 100) / 12) ^ (1 * 12) \<le> 900000 \<and>
   (\<exists>p. calcular_aportacion_necesaria npf_pmt 100000 900000 1 (12 / 100) = Inr (PyFloat (Fin p)) \<and>
        calcular_valor_futuro 100000 p 1 (12 / 100) = 900000)"
  using payment_round_trip [of 1 "12 / 100" 100000 900000]
  by (simp add: power_divide)

section \<open>The savings gap\<close>

text \<open>
  C8. The gap is guarded by the truth value of the required payment, not by a test for
  \<^verbatim>\<open>None\<close>. When the target equals the present value at rate zero the required payment
  is the number \<open>0\<close>, which is false, and the gap is \<open>0\<close> instead of \<open>0 - 1000\<close>.
\<close>

theorem gap_ahorro_zero_payment:
  "calcular_aportacion_necesaria npf_pmt 75000 75000 20 0 = Inr (PyFloat (Fin 0)) \<and>
   gap_ahorro (PyFloat (Fin 0)) 1000 = Fin 0 \<and>
   gap_ahorro (PyFloat (Fin 0)) 1000 \<noteq> Fin (0 - 1000)"
  by (simp add: calcular_aportacion_necesaria_def npf_pmt_def Let_def gap_ahorro_def)

lemma gap_ahorro_nonzero:
  "r \<noteq> 0 \<Longrightarrow> gap_ahorro (PyFloat (Fin r)) a = Fin (r - a)"
  by (simp add: gap_ahorro_def)

section \<open>The required rate\<close>

text \<open>
  The required rate is annualised by compounding, \<open>(1 + m) ^ 12 - 1\<close>, while the future
  value turns an annual rate into a monthly one by dividing by 12. For a positive
  monthly rate \<open>m\<close> the second does not undo the first: the monthly rate that the
  future value works with is strictly larger than \<open>m\<close>.
\<close>

lemma compound_exceeds_nominal:
  assumes "0 < (m::real)"
  shows "m < ((1 + m) ^ 12 - 1) / 12"
proof -
  have "1 + real 11 * m \<le> (1 + m) ^ 11"
    using assms by (intro Bernoulli_inequality) simp
  then have "(1 + m) * (1 + 11 * m) \<le> (1 + m) * (1 + m) ^ 11"
    using assms by (intro mult_left_mono) simp_all
  moreover have "(1 + m) * (1 + m) ^ 11 = (1 + m) ^ 12"
    by (simp add: power_Suc [symmetric] del: power_Suc)
  moreover have "1 + 12 * m < (1 + m) * (1 + 11 * m)"
    using assms by (simp add: algebra_simps)
  ultimately have "1 + 12 * m < (1 + m) ^ 12" by linarith
  then show ?thesis by simp
qed

lemma future_value_strict_mono_rate:
  assumes m: "0 < m" "m < m'" and n: "2 \<le> n"
    and pv: "0 \<le> pv" and pmt: "0 \<le> pmt" and pos: "0 < pv + pmt"
  shows "pv * (1 + m) ^ n + pmt * (((1 + m) ^ n - 1) / m)
       < pv * (1 + m') ^ n + pmt * (((1 + m') ^ n - 1) / (m' :: real))"
proof -
  have X: "(1 + m) ^ n < (1 + m') ^ n"
    using m n by (intro power_strict_mono) auto
  have le: "\<forall>k\<in>{..<n}. (1 + m) ^ k \<le> (1 + m') ^ k"
    using m by (auto intro!: power_mono)
  have "(1 + m) ^ 1 < (1 + m') ^ 1" using m by simp
  moreover have "1 \<in> {..<n}" using n by simp
  ultimately have ex: "\<exists>k\<in>{..<n}. (1 + m) ^ k < (1 + m') ^ k" by blast
  have S: "(\<Sum>k<n. (1 + m) ^ k) < (\<Sum>k<n. (1 + m') ^ k)"
    using le ex by (intro sum_strict_mono_ex1) auto
  have "pv * (1 + m) ^ n + pmt * (\<Sum>k<n. (1 + m) ^ k)
      < pv * (1 + m') ^ n + pmt * (\<Sum>k<n. (1 + m') ^ k)"
  proof (cases "0 < pv")
    case True
    then have "pv * (1 + m) ^ n < pv * (1 + m') ^ n" using X by simp
    moreover have "pmt * (\<Sum>k<n. (1 + m) ^ k) \<le> pmt * (\<Sum>k<n. (1 + m') ^ k)"
      using S pmt by (intro mult_left_mono) auto
    ultimately show ?thesis by linarith
  next
    case False
    with pv pos have "0 < pmt" by simp
    then have "pmt * (\<Sum>k<n. (1 + m) ^ k) < pmt * (\<Sum>k<n. (1 + m') ^ k)"
      using S by simp
    moreover have "pv * (1 + m) ^ n \<le> pv * (1 + m') ^ n"
      using X pv by (intro mult_left_mono) auto
    ultimately show ?thesis by linarith
  qed
  moreover have "m \<noteq> 0" "m' \<noteq> 0" using m by auto
  ultimately show ?thesis by (simp add: annuity_sum)
qed

text \<open>
  Hence, whatever solver is used: if it returns a positive monthly rate that solves the
  annuity equation exactly, the future value at the returned annual rate lies strictly
  above the target.
\<close>

lemma cagr_round_trip_overshoots:
  assumes s: "solver (years * 12) (- pmt) (- pv) target = Inr (PyFloat (Fin m))"
    and m: "0 < m" and y: "0 < years" and pv: "0 \<le> pv" and pmt: "0 \<le> pmt"
    and pos: "0 < pv + pmt"
    and root: "target = pv * (1 + m) ^ (years * 12) + pmt * (((1 + m) ^ (years * 12) - 1) / m)"
  shows "calcular_cagr_necesario solver pv target years pmt = Inr (PyFloat (Fin ((1 + m) ^ 12 - 1))) \<and>
         target < calcular_valor_futuro pv pmt years ((1 + m) ^ 12 - 1)"
proof -
  define m' where "m' = ((1 + m) ^ 12 - 1) / 12"
  have m': "m < m'" unfolding m'_def using m by (rule compound_exceeds_nominal)
  have n: "2 \<le> years * 12" using y by simp
  have "target < pv * (1 + m') ^ (years * 12) + pmt * (((1 + m') ^ (years * 12) - 1) / m')"
    unfolding root using m m' n pv pmt pos by (rule future_value_strict_mono_rate)
  moreover have "calcular_valor_futuro pv pmt years ((1 + m) ^ 12 - 1)
      = pv * (1 + m') ^ (years * 12) + pmt * (((1 + m') ^ (years * 12) - 1) / m')"
    unfolding calcular_valor_futuro_def Let_def m'_def [symmetric] using m m' by simp
  moreover have "calcular_cagr_necesario solver pv target years pmt = Inr (PyFloat (Fin ((1 + m) ^ 12 - 1)))"
    using s by (simp add: calcular_cagr_necesario_def Let_def)
  ultimately show ?thesis by simp
qed

lemma newton_first_step:
  "newton (Suc k) (1 / 10) 12 (- 10000) (- 100000) (5276856753442 / 10 ^ 7) = Fin (1 / 10)"
  by (simp add: g_div_gp_def Let_def power_divide)

text \<open>
  C1. From 100000 with 10000 a month, the target 527685.6753442 is reached in one year
  at exactly 10 per cent a month, which is the solver's first guess, so the iteration
  stops there. The function returns the effective annual rate \<open>1.1 ^ 12 - 1\<close>; the
  future value divides that rate by 12 again and compounds it monthly, and ends above
  a million instead of at the target.
\<close>

theorem cagr_round_trip_fails:
  "calcular_cagr_necesario npf_rate 100000 (5276856753442 / 10 ^ 7) 1 10000
     = Inr (PyFloat (Fin (2138428376721 / 10 ^ 12))) \<and>
   (5276856753442 / 10 ^ 7 :: real) < 530000 \<and>
   1000000 < calcular_valor_futuro 100000 10000 1 (2138428376721 / 10 ^ 12)"
  using newton_first_step [of 99]
  by (simp add: calcular_cagr_necesario_def npf_rate_def Let_def calcular_valor_futuro_def
        power_divide)

end
